theory Spec2Isabelle
  imports Main
begin

section \<open>Server-Sent Events streaming helper (src/helper/streaming/sse.ts)\<close>

text \<open>
  A shallow embedding of \<^verbatim>\<open>SSEStreamingApi.writeSSE\<close>, \<^verbatim>\<open>run\<close> and the abort listener of
  \<^verbatim>\<open>streamSSE\<close>. JavaScript strings are \<open>string\<close> (lists of characters standing for code
  units; only the line feed is ever inspected). An \<^verbatim>\<open>async\<close> function is a function from the
  state of the session to its completion (a thrown value or a result) and the new state;
  \<^verbatim>\<open>await\<close> is sequencing. Three names of the source are taken in Isabelle: the field \<^verbatim>\<open>id\<close> is
  \<open>id'\<close>, \<^verbatim>\<open>includes\<close> is \<open>str_includes\<close> and \<^verbatim>\<open>write\<close> is \<open>write_string\<close>.
\<close>

subsection \<open>Values\<close>

text \<open>
  A value thrown in JavaScript: \<open>Error m\<close> is any object with \<^verbatim>\<open>e instanceof Error\<close>, with its
  \<^verbatim>\<open>message\<close>; \<open>NonError v\<close> is any other thrown value (a string, a number, \<^verbatim>\<open>undefined\<close>, ...),
  named by its printed form.
\<close>

datatype thrown = Error string | NonError string

text \<open>
  \<^verbatim>\<open>data: string | Promise<string>\<close>: a string, or a promise that has settled either by
  rejecting with a thrown value or by fulfilling with a string.
\<close>

datatype sse_data = Str string | Deferred "thrown + string"

text \<open>
  \<^verbatim>\<open>interface SSEMessage\<close>. An optional field is an \<open>option\<close>. \<^verbatim>\<open>retry?: number\<close> is an
  \<open>int\<close>: the model covers the integer-valued numbers, which is what the data model of the
  specification admits for \<^verbatim>\<open>retry\<close>; fractions and \<^verbatim>\<open>NaN\<close> are outside it.
\<close>

record SSEMessage =
  data :: sse_data
  event :: "string option"
  id' :: "string option"
  retry :: "int option"

subsection \<open>String primitives of the language\<close>

text \<open>\<^verbatim>\<open>String.prototype.includes\<close> for a one-character needle.\<close>

definition str_includes :: "string \<Rightarrow> char \<Rightarrow> bool" where
  "str_includes s c = (c \<in> set s)"

text \<open>
  \<^verbatim>\<open>String.prototype.split\<close> for a one-character separator: the pieces between the
  separators, in order, empty pieces kept; a string without the separator is one piece, and so
  is the empty string.
\<close>

fun split :: "string \<Rightarrow> char \<Rightarrow> string list" where
  "split [] sep = [[]]"
| "split (c # cs) sep =
     (if c = sep then [] # split cs sep
      else (case split cs sep of
              [] \<Rightarrow> [[c]]
            | l # ls \<Rightarrow> (c # l) # ls))"

text \<open>
  The conversion of a number to a string in a template literal (\<^verbatim>\<open>Number::toString\<close> of the
  language, radix 10), for integer values. An \<open>int\<close> stands for the Number value of that
  integer: the double nearest to it, ties going to the even mantissa.

  Up to \<open>2^53 - 1\<close> in magnitude (a safe integer) every integer is a double and the only digit
  string that denotes it is its own numeral: the result is the decimal numeral without leading
  zeros, with a minus sign for a negative value.

  Beyond that range the language takes the shortest digit string \<open>s\<close> of \<open>k\<close> digits such that
  \<open>s\<close> times a power of ten rounds to the number, the closest one if there are several, \<open>n\<close>
  being the number of digits before the decimal point. For \<open>n\<close> up to 21 it prints \<open>s\<close> followed
  by \<open>n - k\<close> zeros; from there on it prints exponent notation, the first digit, a point and
  the other digits if there are any, then \<^verbatim>\<open>e+\<close> and \<open>n - 1\<close>. A value that rounds to \<open>2^1024\<close> or
  more is \<^verbatim>\<open>Infinity\<close>.
\<close>

definition digit_char :: "nat \<Rightarrow> char" where
  "digit_char d = ''0123456789'' ! d"

function decimal :: "nat \<Rightarrow> string" where
  "decimal n = (if n < 10 then [digit_char n] else decimal (n div 10) @ [digit_char (n mod 10)])"
  by pat_completeness auto
termination
  by (relation "measure (\<lambda>n. n)") auto

definition MAX_SAFE_INTEGER :: int where
  "MAX_SAFE_INTEGER = 9007199254740991"

fun bit_length :: "nat \<Rightarrow> nat" where
  "bit_length n = (if n = 0 then 0 else Suc (bit_length (n div 2)))"

text \<open>
  The double nearest to a natural number: a number of more than 53 bits keeps its 53 leading
  bits, rounded to nearest, a tie going to the even mantissa.
\<close>

definition round_to_double :: "nat \<Rightarrow> nat" where
  "round_to_double y =
     (let b = bit_length y in
      if b \<le> 53 then y
      else (let q = 2 ^ (b - 53); m = y div q; r = y mod q in
            if 2 * r < q then m * q
            else if q < 2 * r then (m + 1) * q
            else if even m then m * q else (m + 1) * q))"

text \<open>
  The shortest digit string for the double \<open>x\<close> of \<open>d\<close> decimal digits, searched from \<open>k\<close> digits
  on: the result is \<open>(k, s)\<close>. At each length the two candidates are \<open>x\<close> cut after \<open>k\<close> digits
  and the next number up.
\<close>

function shortest_digits :: "nat \<Rightarrow> nat \<Rightarrow> nat \<Rightarrow> nat \<times> nat" where
  "shortest_digits x d k =
     (if d \<le> k then (d, x)
      else (let p = 10 ^ (d - k); lo = x div p; hi = lo + 1;
                lo_ok = (round_to_double (lo * p) = x);
                hi_ok = (hi < 10 ^ k \<and> round_to_double (hi * p) = x)
            in if lo_ok \<and> hi_ok
               then (if x - lo * p < hi * p - x then (k, lo)
                     else if hi * p - x < x - lo * p then (k, hi)
                     else if even lo then (k, lo) else (k, hi))
               else if lo_ok then (k, lo)
               else if hi_ok then (k, hi)
               else shortest_digits x d (k + 1)))"
  by pat_completeness auto
termination
  by (relation "measure (\<lambda>(x, d, k). d - k)") auto

definition digits_to_string :: "nat \<Rightarrow> nat \<Rightarrow> nat \<Rightarrow> string" where
  "digits_to_string n k s =
     (if n \<le> 21 then decimal s @ replicate (n - k) CHR ''0''
      else if k = 1 then decimal s @ ''e+'' @ decimal (n - 1)
      else hd (decimal s) # CHR ''.'' # tl (decimal s) @ ''e+'' @ decimal (n - 1))"

text \<open>
  The string of a double \<open>x\<close> beyond the safe range. If the power of ten just above \<open>x\<close> rounds
  to \<open>x\<close>, the single digit 1 is the shortest string, with one more digit before the point.
\<close>

definition double_toString :: "nat \<Rightarrow> string" where
  "double_toString x =
     (if 2 ^ 1024 \<le> x then ''Infinity''
      else (let d = length (decimal x) in
            if round_to_double (10 ^ d) = x then digits_to_string (d + 1) 1 1
            else (case shortest_digits x d 1 of (k, s) \<Rightarrow> digits_to_string d k s)))"

definition Number_toString :: "int \<Rightarrow> string" where
  "Number_toString n =
     (if \<bar>n\<bar> \<le> MAX_SAFE_INTEGER
      then (if n < 0 then CHR ''-'' # decimal (nat (- n)) else decimal (nat n))
      else (if n < 0 then CHR ''-'' # double_toString (round_to_double (nat (- n)))
            else double_toString (round_to_double (nat n))))"

subsection \<open>The session: the stream and the console\<close>

text \<open>
  What the outside can observe of a session, in order: a chunk accepted by the underlying
  writer, a call of \<^verbatim>\<open>close()\<close>, a call of \<^verbatim>\<open>abort()\<close>, a value passed to \<^verbatim>\<open>console.error\<close>.
\<close>

datatype effect = Wrote string | CloseCalled | AbortCalled | ConsoleError thrown

record session =
  closed :: bool
  broken :: bool
  effects :: "effect list"

type_synonym 'a completion = "(thrown + 'a) \<times> session"

definition frames :: "session \<Rightarrow> string list" where
  "frames s = concat (map (\<lambda>x. case x of Wrote f \<Rightarrow> [f] | _ \<Rightarrow> []) (effects s))"

definition console :: "session \<Rightarrow> thrown list" where
  "console s = concat (map (\<lambda>x. case x of ConsoleError e \<Rightarrow> [e] | _ \<Rightarrow> []) (effects s))"

definition close_calls :: "session \<Rightarrow> nat" where
  "close_calls s = length (filter (\<lambda>x. x = CloseCalled) (effects s))"

text \<open>
  The class \<^verbatim>\<open>StreamingApi\<close> of \<^verbatim>\<open>utils/stream\<close>, which \<^verbatim>\<open>SSEStreamingApi\<close> extends, is not among
  the sources; its operations \<^verbatim>\<open>write\<close>, \<^verbatim>\<open>close\<close> and \<^verbatim>\<open>abort\<close> and its flag \<^verbatim>\<open>closed\<close> are taken
  from the specification (4.2, 5 and 7). They complete at once: the model has no moment at
  which a call of \<^verbatim>\<open>close()\<close> has been made and the flag is not yet set.
\<close>

text \<open>
  Modelled from the spec: the WriteError with which a write on a closed or broken stream fails
  (4.2). It is handled like an error of the producer (7), so it is of the recognized kind.
\<close>

definition WriteError :: thrown where
  "WriteError = Error ''WriteError''"

text \<open>
  Modelled from the spec: \<^verbatim>\<open>StreamingApi.write\<close> (4.2). It fails with a WriteError if the stream
  is already closed or the transport write fails, and otherwise the chunk is accepted.
\<close>

definition write_string :: "string \<Rightarrow> session \<Rightarrow> unit completion" where
  "write_string input s =
     (if closed s \<or> broken s then (Inl WriteError, s)
      else (Inr (), s\<lparr>effects := effects s @ [Wrote input]\<rparr>))"

text \<open>
  Modelled from the spec: \<^verbatim>\<open>StreamingApi.close\<close> (4.2, 3). It ends the stream normally; the
  \<^verbatim>\<open>closed\<close> flag only ever goes from false to true.
\<close>

definition close :: "session \<Rightarrow> session" where
  "close s = s\<lparr>closed := True, effects := effects s @ [CloseCalled]\<rparr>"

text \<open>
  Modelled from the spec: \<^verbatim>\<open>StreamingApi.abort\<close> (4.2, 5). It ends the stream abnormally; on
  cancellation the stream moves directly to Closed.
\<close>

definition abort :: "session \<Rightarrow> session" where
  "abort s = s\<lparr>closed := True, effects := effects s @ [AbortCalled]\<rparr>"

text \<open>\<^verbatim>\<open>console.error(e)\<close>.\<close>

definition console_error :: "thrown \<Rightarrow> session \<Rightarrow> session" where
  "console_error e s = s\<lparr>effects := effects s @ [ConsoleError e]\<rparr>"

text \<open>
  Modelled from the spec: \<^verbatim>\<open>resolveCallback\<close> of \<^verbatim>\<open>utils/html\<close> is not among the sources. The
  specification (1) describes it: it resolves a value that is already a string, or a pending
  asynchronous computation, into a final string; it is called here with escaping disabled.
  Awaiting a rejected promise throws the value it was rejected with.
\<close>

fun resolveCallback :: "sse_data \<Rightarrow> thrown + string" where
  "resolveCallback (Str s) = Inr s"
| "resolveCallback (Deferred r) = r"

subsection \<open>writeSSE (lines 18 to 55)\<close>

text \<open>
  The loop of lines 34 to 36:
  \<^verbatim>\<open>for (let i = 0; i < lines.length; i++) { sseData += `data: ${lines[i]}\n` }\<close>
\<close>

function data_loop :: "string list \<Rightarrow> nat \<Rightarrow> string \<Rightarrow> string" where
  "data_loop lines i sseData =
     (if i < length lines
      then data_loop lines (i + 1) (sseData @ ''data: '' @ lines ! i @ ''\<newline>'')
      else sseData)"
  by pat_completeness auto
termination
  by (relation "measure (\<lambda>(lines, i, sseData). length lines - i)") auto

text \<open>
  Lines 23 to 52: the text accumulated in \<^verbatim>\<open>sseData\<close> for a message whose data has resolved to
  \<open>dataStr\<close>. A condition on an optional string holds when the string is present and not empty,
  and on an optional number when the number is present and not zero.
\<close>

definition sseData :: "SSEMessage \<Rightarrow> string \<Rightarrow> string" where
  "sseData message dataStr =
     (let sseData0 = [];
          sseData1 = (case event message of
                        Some e \<Rightarrow> if e \<noteq> [] then sseData0 @ ''event: '' @ e @ ''\<newline>'' else sseData0
                      | None \<Rightarrow> sseData0);
          sseData2 = (if str_includes dataStr CHR ''\<newline>''
                      then data_loop (split dataStr CHR ''\<newline>'') 0 sseData1
                      else sseData1 @ ''data: '' @ dataStr @ ''\<newline>'');
          sseData3 = (case id' message of
                        Some i \<Rightarrow> if i \<noteq> [] then sseData2 @ ''id: '' @ i @ ''\<newline>'' else sseData2
                      | None \<Rightarrow> sseData2);
          sseData4 = (case retry message of
                        Some r \<Rightarrow> if r \<noteq> 0
                                  then sseData3 @ ''retry: '' @ Number_toString r @ ''\<newline>''
                                  else sseData3
                      | None \<Rightarrow> sseData3)
      in sseData4 @ ''\<newline>'')"

definition writeSSE :: "SSEMessage \<Rightarrow> session \<Rightarrow> unit completion" where
  "writeSSE message s =
     (case resolveCallback (data message) of
        Inl e \<Rightarrow> (Inl e, s)
      | Inr dataStr \<Rightarrow> write_string (sseData message dataStr) s)"

subsection \<open>run (lines 58 to 79) and the abort listener of streamSSE (lines 92 to 98)\<close>

type_synonym producer = "session \<Rightarrow> unit completion"
type_synonym handler = "thrown \<Rightarrow> session \<Rightarrow> unit completion"

text \<open>
  \<^verbatim>\<open>try { await cb(stream) } catch (e) { ... } finally { stream.close() }\<close>. The completion of
  the \<^verbatim>\<open>try\<close> and \<^verbatim>\<open>catch\<close> blocks is kept by the \<^verbatim>\<open>finally\<close> block, which only calls
  \<^verbatim>\<open>close()\<close>. A value thrown inside the \<^verbatim>\<open>catch\<close> block, by the handler or by \<^verbatim>\<open>writeSSE\<close>, is
  the completion of \<^verbatim>\<open>run\<close>.
\<close>

definition run :: "producer \<Rightarrow> handler option \<Rightarrow> session \<Rightarrow> unit completion" where
  "run cb onError stream =
     (let (r, s) =
        (case cb stream of
           (Inr u, s1) \<Rightarrow> (Inr (), s1)
         | (Inl e, s1) \<Rightarrow>
             (case (e, onError) of
                (Error m, Some h) \<Rightarrow>
                  (case h e s1 of
                     (Inl e', s2) \<Rightarrow> (Inl e', s2)
                   | (Inr u, s2) \<Rightarrow>
                       writeSSE \<lparr>data = Str m, event = Some ''error'', id' = None, retry = None\<rparr> s2)
              | _ \<Rightarrow> (Inr (), console_error e s1)))
      in (r, close s))"

text \<open>
  \<^verbatim>\<open>new SSEStreamingApi(writable, readable)\<close> on a fresh \<^verbatim>\<open>TransformStream\<close>, and the listener
  \<^verbatim>\<open>() => { if (!stream.closed) { stream.abort() } }\<close> registered on the request's abort signal.
\<close>

definition new_stream :: session where
  "new_stream = \<lparr>closed = False, broken = False, effects = []\<rparr>"

definition abort_listener :: "session \<Rightarrow> session" where
  "abort_listener s = (if \<not> closed s then abort s else s)"

subsection \<open>The wire format as the specification words it\<close>

text \<open>
  The frame of a message in the words of the specification (3, WireFrame, and 4.1, steps 2 to
  6), for a message whose data has resolved to \<open>d\<close>: an \<^verbatim>\<open>event:\<close> line if the event is present
  and non-empty; one \<^verbatim>\<open>data:\<close> line per line of the data split on the line feed, empty lines
  preserved; an \<^verbatim>\<open>id:\<close> line if the id is present and non-empty; a \<^verbatim>\<open>retry:\<close> line if the retry is
  present and non-zero; one bare line feed.
\<close>

definition event_line :: "SSEMessage \<Rightarrow> string" where
  "event_line m =
     (case event m of None \<Rightarrow> [] | Some e \<Rightarrow> if e = [] then [] else ''event: '' @ e @ ''\<newline>'')"

definition data_lines :: "string \<Rightarrow> string" where
  "data_lines d = concat (map (\<lambda>l. ''data: '' @ l @ ''\<newline>'') (split d CHR ''\<newline>''))"

definition id_line :: "SSEMessage \<Rightarrow> string" where
  "id_line m =
     (case id' m of None \<Rightarrow> [] | Some i \<Rightarrow> if i = [] then [] else ''id: '' @ i @ ''\<newline>'')"

definition retry_line :: "SSEMessage \<Rightarrow> string" where
  "retry_line m =
     (case retry m of
        None \<Rightarrow> []
      | Some r \<Rightarrow> if r = 0 then [] else ''retry: '' @ Number_toString r @ ''\<newline>'')"

definition formatMessage :: "SSEMessage \<Rightarrow> string \<Rightarrow> string" where
  "formatMessage m d = event_line m @ data_lines d @ id_line m @ retry_line m @ ''\<newline>''"

text \<open>
  Putting lines back together with a separator between neighbours (\<^verbatim>\<open>Array.prototype.join\<close>),
  and reading a decimal numeral: the inverses against which \<open>split\<close> and \<open>decimal\<close> are checked.
\<close>

fun join :: "string list \<Rightarrow> char \<Rightarrow> string" where
  "join [] sep = []"
| "join [l] sep = l"
| "join (l # ls) sep = l @ sep # join ls sep"



subsection \<open>Producers and handlers of the scenarios\<close>

text \<open>
  A producer that throws; a producer whose client goes away between its first and its second
  write (the abort listener runs there); a handler that reports the error and returns; a
  handler that throws.
\<close>

definition producer_throws :: "thrown \<Rightarrow> producer" where
  "producer_throws e s = (Inl e, s)"

definition producer_aborted :: producer where
  "producer_aborted s =
     (case writeSSE \<lparr>data = Str ''one'', event = None, id' = None, retry = None\<rparr> s of
        (Inl e, s1) \<Rightarrow> (Inl e, s1)
      | (Inr u, s1) \<Rightarrow>
          writeSSE \<lparr>data = Str ''two'', event = None, id' = None, retry = None\<rparr> (abort_listener s1))"

definition handler_reports :: handler where
  "handler_reports e s = (Inr (), console_error e s)"

definition handler_throws :: "thrown \<Rightarrow> handler" where
  "handler_throws e' e s = (Inl e', s)"

declare data_loop.simps [simp del]
declare decimal.simps [simp del]
declare bit_length.simps [simp del]
declare shortest_digits.simps [simp del]

section \<open>Properties\<close>

subsection \<open>Splitting, the data loop and decimal numerals\<close>

lemma split_ne: "split s c \<noteq> []"
  by (induction s) (auto split: list.splits)

lemma length_split: "length (split s c) = count_list s c + 1"
  by (induction s) (auto split: list.splits simp: split_ne)

lemma split_no_sep: "c \<notin> set s \<Longrightarrow> split s c = [s]"
  by (induction s) (auto split: list.splits)

lemma join_split: "join (split s c) c = s"
proof (induction s)
  case Nil
  then show ?case by simp
next
  case (Cons a s)
  obtain l ls where sp: "split s c = l # ls"
    using split_ne [of s c] by (cases "split s c") auto
  show ?case
  proof (cases "a = c")
    case True
    then show ?thesis using Cons sp by simp
  next
    case False
    then show ?thesis using Cons sp by (cases ls) auto
  qed
qed

lemma split_pieces: "l \<in> set (split s c) \<Longrightarrow> c \<notin> set l"
proof (induction s arbitrary: l)
  case Nil
  then show ?case by simp
next
  case (Cons a s)
  then show ?case
    by (auto split: if_splits list.splits)
qed




























lemma data_loop_eq:
  "data_loop lines i acc = acc @ concat (map (\<lambda>l. ''data: '' @ l @ ''\<newline>'') (drop i lines))"
proof (induction lines i acc rule: data_loop.induct)
  case (1 lines i acc)
  show ?case
  proof (cases "i < length lines")
    case True
    then have d: "drop i lines = lines ! i # drop (i + 1) lines"
      by (simp add: Cons_nth_drop_Suc)
    have "data_loop lines i acc = data_loop lines (i + 1) (acc @ ''data: '' @ lines ! i @ ''\<newline>'')"
      using True by (subst data_loop.simps) simp
    also have "\<dots> = (acc @ ''data: '' @ lines ! i @ ''\<newline>'')
        @ concat (map (\<lambda>l. ''data: '' @ l @ ''\<newline>'') (drop (i + 1) lines))"
      using True by (rule "1.IH")
    finally show ?thesis by (simp add: d)
  next
    case False
    then show ?thesis by (subst data_loop.simps) simp
  qed
qed

subsection \<open>The frame built by writeSSE\<close>

lemma data_part:
  "(if str_includes d CHR ''\<newline>'' then data_loop (split d CHR ''\<newline>'') 0 acc
    else acc @ ''data: '' @ d @ ''\<newline>'') = acc @ data_lines d"
  by (simp add: str_includes_def data_loop_eq data_lines_def split_no_sep)

lemma sseData_formatMessage: "sseData m d = formatMessage m d"
  unfolding sseData_def Let_def data_part formatMessage_def event_line_def id_line_def retry_line_def
  by (simp split: option.splits)

lemma data_lines_single: "CHR ''\<newline>'' \<notin> set d \<Longrightarrow> data_lines d = ''data: '' @ d @ ''\<newline>''"
  by (simp add: data_lines_def split_no_sep)

subsection \<open>Effects of the stream operations\<close>

lemma close_simps [simp]:
  "closed (close s) = True"
  "broken (close s) = broken s"
  "effects (close s) = effects s @ [CloseCalled]"
  by (simp_all add: close_def)

lemma abort_simps [simp]:
  "closed (abort s) = True"
  "broken (abort s) = broken s"
  "effects (abort s) = effects s @ [AbortCalled]"
  by (simp_all add: abort_def)

lemma console_error_simps [simp]:
  "closed (console_error e s) = closed s"
  "broken (console_error e s) = broken s"
  "effects (console_error e s) = effects s @ [ConsoleError e]"
  by (simp_all add: console_error_def)

lemma frames_simps [simp]:
  "frames (close s) = frames s"
  "frames (abort s) = frames s"
  "frames (console_error e s) = frames s"
  "frames (s\<lparr>effects := effects s @ [Wrote f]\<rparr>) = frames s @ [f]"
  by (simp_all add: frames_def)

lemma console_simps [simp]:
  "console (close s) = console s"
  "console (abort s) = console s"
  "console (console_error e s) = console s @ [e]"
  "console (s\<lparr>effects := effects s @ [Wrote f]\<rparr>) = console s"
  by (simp_all add: console_def)

lemma close_calls_simps [simp]:
  "close_calls (close s) = close_calls s + 1"
  "close_calls (abort s) = close_calls s"
  "close_calls (console_error e s) = close_calls s"
  "close_calls (s\<lparr>effects := effects s @ [Wrote f]\<rparr>) = close_calls s"
  by (simp_all add: close_calls_def)

lemma writeSSE_cases:
  "writeSSE m s =
     (case resolveCallback (data m) of
        Inl e \<Rightarrow> (Inl e, s)
      | Inr d \<Rightarrow> if closed s \<or> broken s then (Inl WriteError, s)
                 else (Inr (), s\<lparr>effects := effects s @ [Wrote (sseData m d)]\<rparr>))"
  by (simp add: writeSSE_def write_string_def split: sum.splits)

lemma writeSSE_open:
  "resolveCallback (data m) = Inr d \<Longrightarrow> \<not> closed s \<Longrightarrow> \<not> broken s \<Longrightarrow>
     writeSSE m s = (Inr (), s\<lparr>effects := effects s @ [Wrote (sseData m d)]\<rparr>)"
  by (simp add: writeSSE_cases)

lemma writeSSE_close_calls: "close_calls (snd (writeSSE m s)) = close_calls s"
  by (simp add: writeSSE_cases split: sum.splits)

lemma writeSSE_closed: "closed (snd (writeSSE m s)) = closed s"
  by (simp add: writeSSE_cases split: sum.splits)

lemma writeSSE_own_effects:
  "\<exists>own. effects (snd (writeSSE m s)) = effects s @ own \<and> CloseCalled \<notin> set own"
  by (simp add: writeSSE_cases split: sum.splits)

lemma abort_listener_close_calls: "close_calls (abort_listener s) = close_calls s"
  by (simp add: abort_listener_def)

lemma producer_aborted_close_calls: "close_calls (snd (producer_aborted s)) = close_calls s"
  by (simp add: producer_aborted_def writeSSE_close_calls abort_listener_close_calls
      split: prod.splits sum.splits)
     (metis writeSSE_close_calls snd_conv)

lemma handler_reports_close_calls: "close_calls (snd (handler_reports e s)) = close_calls s"
  by (simp add: handler_reports_def)

subsection \<open>The completion of run, outcome by outcome\<close>

lemma run_returns:
  "cb stream = (Inr u, s1) \<Longrightarrow> run cb onError stream = (Inr (), close s1)"
  by (simp add: run_def)

lemma run_Error_handler_ok:
  "cb stream = (Inl (Error m), s1) \<Longrightarrow> h (Error m) s1 = (Inr u, s2) \<Longrightarrow>
     run cb (Some h) stream =
       (fst (writeSSE \<lparr>data = Str m, event = Some ''error'', id' = None, retry = None\<rparr> s2),
        close (snd (writeSSE \<lparr>data = Str m, event = Some ''error'', id' = None, retry = None\<rparr> s2)))"
  by (simp add: run_def split: prod.splits)

lemma run_Error_handler_throws:
  "cb stream = (Inl (Error m), s1) \<Longrightarrow> h (Error m) s1 = (Inl e', s2) \<Longrightarrow>
     run cb (Some h) stream = (Inl e', close s2)"
  by (simp add: run_def)

lemma run_Error_no_handler:
  "cb stream = (Inl (Error m), s1) \<Longrightarrow>
     run cb None stream = (Inr (), close (console_error (Error m) s1))"
  by (simp add: run_def)

lemma run_NonError:
  "cb stream = (Inl (NonError v), s1) \<Longrightarrow>
     run cb onError stream = (Inr (), close (console_error (NonError v) s1))"
  by (simp add: run_def split: option.splits)

lemma run_closed: "closed (snd (run cb onError stream))"
  by (simp add: run_def split: prod.splits sum.splits thrown.splits option.splits)

lemma run_last:
  "effects (snd (run cb onError stream)) \<noteq> [] \<and>
   last (effects (snd (run cb onError stream))) = CloseCalled"
  by (simp add: run_def split: prod.splits sum.splits thrown.splits option.splits)

lemma run_own_effects:
  "\<exists>s' own. effects (snd (run cb onError stream)) = effects s' @ own @ [CloseCalled]
      \<and> CloseCalled \<notin> set own
      \<and> (s' = snd (cb stream) \<or> (\<exists>h e. onError = Some h \<and> s' = snd (h e (snd (cb stream)))))"
proof -
  obtain r s1 where cb: "cb stream = (r, s1)" by (cases "cb stream")
  show ?thesis
  proof (cases r)
    case (Inr u)
    with cb have "effects (snd (run cb onError stream)) = effects s1 @ [] @ [CloseCalled]"
      by (simp add: run_returns)
    with cb show ?thesis by (metis empty_iff empty_set snd_conv)
  next
    case (Inl e)
    show ?thesis
    proof (cases e)
      case (NonError v)
      with cb Inl have "effects (snd (run cb onError stream))
          = effects s1 @ [ConsoleError e] @ [CloseCalled]"
        by (simp add: run_NonError)
      moreover have "CloseCalled \<notin> set [ConsoleError e]" by simp
      ultimately show ?thesis using cb by (metis snd_conv)
    next
      case (Error m)
      show ?thesis
      proof (cases onError)
        case None
        with cb Inl Error have "effects (snd (run cb onError stream))
            = effects s1 @ [ConsoleError e] @ [CloseCalled]"
          by (simp add: run_Error_no_handler)
        moreover have "CloseCalled \<notin> set [ConsoleError e]" by simp
        ultimately show ?thesis using cb by (metis snd_conv)
      next
        case (Some h)
        obtain r2 s2 where h: "h (Error m) s1 = (r2, s2)" by (cases "h (Error m) s1")
        have s2: "s2 = snd (h e (snd (cb stream)))" using cb h Error by simp
        show ?thesis
        proof (cases r2)
          case (Inl e')
          with cb \<open>r = Inl e\<close> Error Some h
          have "effects (snd (run cb onError stream)) = effects s2 @ [] @ [CloseCalled]"
            by (simp add: run_Error_handler_throws)
          with s2 Some show ?thesis by (metis empty_iff empty_set)
        next
          case (Inr u)
          let ?w = "writeSSE \<lparr>data = Str m, event = Some ''error'', id' = None, retry = None\<rparr> s2"
          obtain own where own: "effects (snd ?w) = effects s2 @ own" "CloseCalled \<notin> set own"
            using writeSSE_own_effects by blast
          from cb \<open>r = Inl e\<close> Error Some h Inr
          have "effects (snd (run cb onError stream)) = effects (snd ?w) @ [CloseCalled]"
            by (simp add: run_Error_handler_ok)
          with own have "effects (snd (run cb onError stream)) = effects s2 @ own @ [CloseCalled]"
            by simp
          with own(2) s2 Some show ?thesis by blast
        qed
      qed
    qed
  qed
qed

lemma run_close_calls:
  assumes "\<forall>s. close_calls (snd (cb s)) = close_calls s"
    and "\<forall>h e s. onError = Some h \<longrightarrow> close_calls (snd (h e s)) = close_calls s"
  shows "close_calls (snd (run cb onError stream)) = close_calls stream + 1"
proof -
  obtain r s1 where cb: "cb stream = (r, s1)" by (cases "cb stream")
  then have s1: "close_calls s1 = close_calls stream" using assms(1) by (metis snd_conv)
  show ?thesis
  proof (cases r)
    case (Inr u)
    with cb s1 show ?thesis by (simp add: run_returns)
  next
    case (Inl e)
    show ?thesis
    proof (cases e)
      case (NonError v)
      with cb Inl s1 show ?thesis by (simp add: run_NonError)
    next
      case (Error m)
      show ?thesis
      proof (cases onError)
        case None
        with cb Inl Error s1 show ?thesis by (simp add: run_Error_no_handler)
      next
        case (Some h)
        obtain r2 s2 where h: "h (Error m) s1 = (r2, s2)" by (cases "h (Error m) s1")
        then have s2: "close_calls s2 = close_calls s1" using assms(2) Some by (metis snd_conv)
        show ?thesis
        proof (cases r2)
          case (Inl e')
          with cb \<open>r = Inl e\<close> Error Some h s1 s2 show ?thesis
            by (simp add: run_Error_handler_throws)
        next
          case (Inr u)
          with cb \<open>r = Inl e\<close> Error Some h s1 s2 show ?thesis
            by (simp add: run_Error_handler_ok writeSSE_close_calls)
        qed
      qed
    qed
  qed
qed

lemma new_stream_simps [simp]:
  "closed new_stream = False" "broken new_stream = False" "effects new_stream = []"
  "close_calls new_stream = 0" "frames new_stream = []" "console new_stream = []"
  by (simp_all add: new_stream_def close_calls_def frames_def console_def)

section \<open>The claims\<close>

text \<open>
  C1. Whatever the producer does (it returns, it throws a recognized error with or without a
  handler supplied, it throws any other value, or its client goes away in the middle of its
  writes), when \<open>run\<close> completes the stream's \<open>closed\<close> flag is true and the call of \<open>close\<close> is the
  last thing that happened. After the last piece of user code (the producer, or the handler if
  it was called) has handed control back, what the supervisor itself does ends with one call of
  \<open>close\<close> and contains no other; so if neither the producer nor the handler closes the stream,
  \<open>close\<close> has been called exactly once more than before. This holds also when the handler or
  the write of the error frame throws.
\<close>

theorem run_guaranteed_close:
  "closed (snd (run cb onError stream))
   \<and> effects (snd (run cb onError stream)) \<noteq> []
   \<and> last (effects (snd (run cb onError stream))) = CloseCalled
   \<and> (\<exists>s' own. effects (snd (run cb onError stream)) = effects s' @ own @ [CloseCalled]
         \<and> CloseCalled \<notin> set own
         \<and> (s' = snd (cb stream) \<or> (\<exists>h e. onError = Some h \<and> s' = snd (h e (snd (cb stream))))))
   \<and> ((\<forall>s. close_calls (snd (cb s)) = close_calls s)
        \<and> (\<forall>h e s. onError = Some h \<longrightarrow> close_calls (snd (h e s)) = close_calls s)
       \<longrightarrow> close_calls (snd (run cb onError stream)) = close_calls stream + 1)"
  using run_closed [of cb onError stream] run_last [of cb onError stream]
    run_own_effects [of cb onError stream] run_close_calls [of cb onError stream]
  by blast

theorem run_guaranteed_close_witness:
  "closed (snd (run producer_aborted (Some handler_reports) new_stream))
   \<and> last (effects (snd (run producer_aborted (Some handler_reports) new_stream))) = CloseCalled
   \<and> close_calls (snd (run producer_aborted (Some handler_reports) new_stream)) = 1
   \<and> frames (snd (run producer_aborted (Some handler_reports) new_stream)) = [''data: one\<newline>\<newline>'']"
proof -
  have "frames (snd (run producer_aborted (Some handler_reports) new_stream))
      = [''data: one\<newline>\<newline>'']"
    by (simp add: run_def producer_aborted_def handler_reports_def writeSSE_cases WriteError_def
        abort_listener_def sseData_formatMessage formatMessage_def event_line_def id_line_def
        retry_line_def data_lines_single frames_def)
  with run_guaranteed_close [of producer_aborted "Some handler_reports" new_stream]
  show ?thesis
    by (simp add: producer_aborted_close_calls handler_reports_close_calls)
qed

text \<open>
  C2. For a message whose data has resolved to \<open>d\<close>, the text that \<open>writeSSE\<close> builds is exactly
  the frame of the specification: the \<^verbatim>\<open>event:\<close> line when the event is present and non-empty,
  the \<^verbatim>\<open>data:\<close> lines, the \<^verbatim>\<open>id:\<close> line when the id is present and non-empty, the \<^verbatim>\<open>retry:\<close> line
  when the retry is present and non-zero, and one bare line feed, in that order. The data lines
  are one more than the line feeds in \<open>d\<close>, they are in the original order (joined by line feeds
  they give \<open>d\<close> back, empty lines included), none contains a line feed, and the empty string
  gives the single line \<^verbatim>\<open>data: \<close>. On an open stream that frame is the one chunk written.
\<close>

theorem sseData_wire_format:
  "sseData m d = event_line m @ data_lines d @ id_line m @ retry_line m @ ''\<newline>''
   \<and> length (split d CHR ''\<newline>'') = count_list d CHR ''\<newline>'' + 1
   \<and> join (split d CHR ''\<newline>'') CHR ''\<newline>'' = d
   \<and> (\<forall>l \<in> set (split d CHR ''\<newline>''). CHR ''\<newline>'' \<notin> set l)
   \<and> data_lines [] = ''data: \<newline>''
   \<and> (resolveCallback (data m) = Inr d \<and> \<not> closed s \<and> \<not> broken s \<longrightarrow>
        frames (snd (writeSSE m s)) = frames s @ [formatMessage m d])"
proof -
  have "sseData m d = event_line m @ data_lines d @ id_line m @ retry_line m @ ''\<newline>''"
    by (simp add: sseData_formatMessage formatMessage_def)
  moreover have "data_lines [] = ''data: \<newline>''"
    by (simp add: data_lines_def)
  moreover have "resolveCallback (data m) = Inr d \<and> \<not> closed s \<and> \<not> broken s \<longrightarrow>
        frames (snd (writeSSE m s)) = frames s @ [formatMessage m d]"
    by (simp add: writeSSE_open sseData_formatMessage)
  ultimately show ?thesis
    using length_split [of d "CHR ''\<newline>''"] join_split [of d "CHR ''\<newline>''"]
      split_pieces [of _ d "CHR ''\<newline>''"]
    by blast
qed

theorem sseData_wire_format_witness:
  "sseData \<lparr>data = Str ''a\<newline>b'', event = Some ''update'', id' = Some ''42'', retry = Some 3000\<rparr>
     ''a\<newline>b'' = ''event: update\<newline>data: a\<newline>data: b\<newline>id: 42\<newline>retry: 3000\<newline>\<newline>''
   \<and> frames (snd (writeSSE \<lparr>data = Str ''a\<newline>b'', event = Some ''update'', id' = Some ''42'',
        retry = Some 3000\<rparr> new_stream))
      = [''event: update\<newline>data: a\<newline>data: b\<newline>id: 42\<newline>retry: 3000\<newline>\<newline>'']"
  using sseData_wire_format [of "\<lparr>data = Str ''a\<newline>b'', event = Some ''update'', id' = Some ''42'',
        retry = Some 3000\<rparr>" "''a\<newline>b''" new_stream]
  by (simp add: formatMessage_def event_line_def data_lines_def id_line_def retry_line_def
      Number_toString_def MAX_SAFE_INTEGER_def decimal.simps digit_char_def)

text \<open>
  C3. When the producer throws a recognized error with message \<open>m\<close> and a handler was supplied
  that returns normally, \<open>run\<close> has called the handler with the error (the state \<open>s2\<close> is the one
  the handler left) and then calls \<open>writeSSE\<close> once, with the event \<^verbatim>\<open>error\<close> and the data \<open>m\<close>. If
  the stream is still open there, that is exactly one more frame, the last one, followed by the
  call of \<open>close\<close>; for a message of one line the frame is \<^verbatim>\<open>event: error\<close>, \<^verbatim>\<open>data: m\<close> and a
  blank line. For \<^verbatim>\<open>Error("boom")\<close> the final frame is the one of the scenario.
\<close>

theorem run_error_with_handler:
  assumes "cb stream = (Inl (Error m), s1)"
    and "h (Error m) s1 = (Inr (), s2)"
  shows "run cb (Some h) stream =
       (fst (writeSSE \<lparr>data = Str m, event = Some ''error'', id' = None, retry = None\<rparr> s2),
        close (snd (writeSSE \<lparr>data = Str m, event = Some ''error'', id' = None, retry = None\<rparr> s2)))
     \<and> (\<not> closed s2 \<and> \<not> broken s2 \<longrightarrow>
          fst (run cb (Some h) stream) = Inr ()
          \<and> effects (snd (run cb (Some h) stream))
              = effects s2 @ [Wrote (''event: error\<newline>'' @ data_lines m @ ''\<newline>''), CloseCalled]
          \<and> frames (snd (run cb (Some h) stream))
              = frames s2 @ [''event: error\<newline>'' @ data_lines m @ ''\<newline>''])
     \<and> (\<not> closed s2 \<and> \<not> broken s2 \<and> CHR ''\<newline>'' \<notin> set m \<longrightarrow>
          last (frames (snd (run cb (Some h) stream))) = ''event: error\<newline>data: '' @ m @ ''\<newline>\<newline>'')"
proof -
  let ?msg = "\<lparr>data = Str m, event = Some ''error'', id' = None, retry = None\<rparr>"
  have run: "run cb (Some h) stream = (fst (writeSSE ?msg s2), close (snd (writeSSE ?msg s2)))"
    using assms by (rule run_Error_handler_ok)
  have frame: "sseData ?msg m = ''event: error\<newline>'' @ data_lines m @ ''\<newline>''"
    by (simp add: sseData_formatMessage formatMessage_def event_line_def id_line_def retry_line_def)
  have w: "\<not> closed s2 \<and> \<not> broken s2 \<longrightarrow>
      writeSSE ?msg s2 = (Inr (), s2\<lparr>effects := effects s2 @ [Wrote (sseData ?msg m)]\<rparr>)"
    by (simp add: writeSSE_open)
  show ?thesis
    using run w by (simp add: frame data_lines_single)
qed

theorem run_error_with_handler_witness:
  "fst (run (producer_throws (Error ''boom'')) (Some handler_reports) new_stream) = Inr ()
   \<and> effects (snd (run (producer_throws (Error ''boom'')) (Some handler_reports) new_stream))
     = [ConsoleError (Error ''boom''), Wrote ''event: error\<newline>data: boom\<newline>\<newline>'', CloseCalled]
   \<and> last (frames (snd (run (producer_throws (Error ''boom'')) (Some handler_reports) new_stream)))
     = ''event: error\<newline>data: boom\<newline>\<newline>''"
proof -
  have cb: "producer_throws (Error ''boom'') new_stream = (Inl (Error ''boom''), new_stream)"
    by (simp add: producer_throws_def)
  have h: "handler_reports (Error ''boom'') new_stream
      = (Inr (), console_error (Error ''boom'') new_stream)"
    by (simp add: handler_reports_def)
  have "\<not> closed (console_error (Error ''boom'') new_stream)
      \<and> \<not> broken (console_error (Error ''boom'') new_stream)
      \<and> CHR ''\<newline>'' \<notin> set ''boom''"
    by simp
  with cb h run_error_with_handler [of "producer_throws (Error ''boom'')" new_stream "''boom''"
      new_stream handler_reports "console_error (Error ''boom'') new_stream", THEN conjunct2]
  show ?thesis
    by (simp add: data_lines_single)
qed

text \<open>
  C4, as stated, fails: a thrown value that is not an \<^verbatim>\<open>Error\<close> is not discarded silently. With
  no handler and with a handler alike, the console is empty when the producer throws and holds
  the thrown value when \<open>run\<close> has completed.
\<close>

theorem run_logs_unrecognized:
  "console (snd (producer_throws (NonError ''oops'') new_stream)) = []
   \<and> console (snd (run (producer_throws (NonError ''oops'')) None new_stream))
       = [NonError ''oops'']
   \<and> console (snd (run (producer_throws (NonError ''oops'')) (Some handler_reports) new_stream))
       = [NonError ''oops'']"
  by (simp add: producer_throws_def run_NonError)

text \<open>
  C4, amended. A thrown value that is not of the recognized error kind never reaches the
  handler or the wire, whether or not a handler was supplied: no frame is written, \<open>run\<close>
  completes normally and the stream is closed. It is not discarded silently: it is passed to
  \<^verbatim>\<open>console.error\<close> once, as a recognized error without a handler is.
\<close>

theorem run_unrecognized_thrown:
  assumes "cb stream = (Inl (NonError v), s1)"
  shows "run cb onError stream = (Inr (), close (console_error (NonError v) s1))
     \<and> effects (snd (run cb onError stream)) = effects s1 @ [ConsoleError (NonError v), CloseCalled]
     \<and> console (snd (run cb onError stream)) = console s1 @ [NonError v]
     \<and> frames (snd (run cb onError stream)) = frames s1
     \<and> closed (snd (run cb onError stream))"
  using assms by (simp add: run_NonError)

theorem run_unrecognized_thrown_witness:
  "run (producer_throws (NonError ''oops'')) (Some handler_reports) new_stream
     = (Inr (), close (console_error (NonError ''oops'') new_stream))
   \<and> effects (snd (run (producer_throws (NonError ''oops'')) (Some handler_reports) new_stream))
     = [ConsoleError (NonError ''oops''), CloseCalled]
   \<and> frames (snd (run (producer_throws (NonError ''oops'')) (Some handler_reports) new_stream)) = []"
  using run_unrecognized_thrown [of "producer_throws (NonError ''oops'')" new_stream "''oops''"
      new_stream "Some handler_reports"]
  by (simp add: producer_throws_def)

text \<open>
  C5. When the producer throws a recognized error and no handler was supplied, the error is
  passed to \<^verbatim>\<open>console.error\<close>, \<open>run\<close> completes normally (the error is not propagated), the
  stream is closed, and no frame is written for the error: the frames are those the producer
  had written.
\<close>

theorem run_error_without_handler:
  assumes "cb stream = (Inl (Error m), s1)"
  shows "run cb None stream = (Inr (), close (console_error (Error m) s1))
     \<and> effects (snd (run cb None stream)) = effects s1 @ [ConsoleError (Error m), CloseCalled]
     \<and> console (snd (run cb None stream)) = console s1 @ [Error m]
     \<and> frames (snd (run cb None stream)) = frames s1
     \<and> closed (snd (run cb None stream))"
  using assms by (simp add: run_Error_no_handler)

theorem run_error_without_handler_witness:
  "run (producer_throws (Error ''boom'')) None new_stream
     = (Inr (), close (console_error (Error ''boom'') new_stream))
   \<and> effects (snd (run (producer_throws (Error ''boom'')) None new_stream))
     = [ConsoleError (Error ''boom''), CloseCalled]
   \<and> frames (snd (run (producer_throws (Error ''boom'')) None new_stream)) = []"
  using run_error_without_handler [of "producer_throws (Error ''boom'')" new_stream "''boom''"
      new_stream]
  by (simp add: producer_throws_def)

text \<open>
  C6. When the handler itself throws, the value it threw is the completion of \<open>run\<close> (it is not
  caught), the error frame is not written (the frames are those present when the handler
  threw, and nothing is reported to the console by \<open>run\<close>), and \<open>close\<close> is still called, last.
\<close>

theorem run_handler_throws:
  assumes "cb stream = (Inl (Error m), s1)"
    and "h (Error m) s1 = (Inl e', s2)"
  shows "run cb (Some h) stream = (Inl e', close s2)
     \<and> effects (snd (run cb (Some h) stream)) = effects s2 @ [CloseCalled]
     \<and> frames (snd (run cb (Some h) stream)) = frames s2
     \<and> console (snd (run cb (Some h) stream)) = console s2
     \<and> closed (snd (run cb (Some h) stream))"
  using assms by (simp add: run_Error_handler_throws)

theorem run_handler_throws_witness:
  "run (producer_throws (Error ''boom'')) (Some (handler_throws (NonError ''bad''))) new_stream
     = (Inl (NonError ''bad''), close new_stream)
   \<and> effects (snd (run (producer_throws (Error ''boom'')) (Some (handler_throws (NonError ''bad'')))
        new_stream)) = [CloseCalled]
   \<and> frames (snd (run (producer_throws (Error ''boom'')) (Some (handler_throws (NonError ''bad'')))
        new_stream)) = []"
  using run_handler_throws [of "producer_throws (Error ''boom'')" new_stream "''boom''"
      new_stream "handler_throws (NonError ''bad'')" "NonError ''bad''" new_stream]
  by (simp add: producer_throws_def handler_throws_def)




text \<open>
  C8. The event, the id and the retry are embedded as they are: for any non-empty event or id
  string, whatever characters it holds (control characters and line feeds included), the line
  is the field name followed by the very string, and for any non-zero retry the line holds the
  number as the language prints it. Nothing is escaped, removed or replaced.
\<close>

theorem fields_embedded_verbatim:
  "(event m = Some e \<and> e \<noteq> [] \<longrightarrow>
      sseData m d = ''event: '' @ e @ ''\<newline>'' @ data_lines d @ id_line m @ retry_line m @ ''\<newline>'')
   \<and> (id' m = Some i \<and> i \<noteq> [] \<longrightarrow>
      sseData m d = event_line m @ data_lines d @ ''id: '' @ i @ ''\<newline>'' @ retry_line m @ ''\<newline>'')
   \<and> (retry m = Some r \<and> r \<noteq> 0 \<longrightarrow>
      sseData m d
        = event_line m @ data_lines d @ id_line m @ ''retry: '' @ Number_toString r @ ''\<newline>\<newline>'')"
  by (simp add: sseData_formatMessage formatMessage_def event_line_def id_line_def retry_line_def)

theorem fields_embedded_verbatim_witness:
  "sseData \<lparr>data = Str ''x'', event = Some ''up\<newline>data: forged'', id' = Some [CHR 0x07, CHR 0x0D],
      retry = Some 5\<rparr> ''x''
     = ''event: up\<newline>data: forged\<newline>data: x\<newline>id: '' @ [CHR 0x07, CHR 0x0D] @ ''\<newline>retry: 5\<newline>\<newline>''"
  using fields_embedded_verbatim [of
      "\<lparr>data = Str ''x'', event = Some ''up\<newline>data: forged'', id' = Some [CHR 0x07, CHR 0x0D],
        retry = Some 5\<rparr>" "''up\<newline>data: forged''" "''x''" "[CHR 0x07, CHR 0x0D]" 5]
  by (simp add: id_line_def retry_line_def data_lines_single Number_toString_def
      MAX_SAFE_INTEGER_def decimal.simps digit_char_def)

text \<open>
  C9. \<open>writeSSE\<close> is atomic on the stream. The data is resolved before anything is written: if
  the resolution fails, \<open>writeSSE\<close> fails with the value the resolution was rejected with and the
  session is unchanged, not even a part of a frame being written. If the resolution gives \<open>d\<close>,
  \<open>writeSSE\<close> is the one call of the underlying write on the whole frame of the message and
  \<open>d\<close>: on an open stream that frame becomes the single chunk added, and on a closed or broken
  stream the write fails and nothing is added. So the effects of \<open>writeSSE\<close> are always either
  none or the single write of the whole frame, and the flags of the stream are untouched.
\<close>

theorem writeSSE_atomic:
  "(resolveCallback (data m) = Inl e \<longrightarrow> writeSSE m s = (Inl e, s))
   \<and> (resolveCallback (data m) = Inr d \<longrightarrow> writeSSE m s = write_string (sseData m d) s)
   \<and> (resolveCallback (data m) = Inr d \<and> \<not> closed s \<and> \<not> broken s \<longrightarrow>
        writeSSE m s = (Inr (), s\<lparr>effects := effects s @ [Wrote (sseData m d)]\<rparr>))
   \<and> (resolveCallback (data m) = Inr d \<and> (closed s \<or> broken s) \<longrightarrow>
        writeSSE m s = (Inl WriteError, s))
   \<and> (effects (snd (writeSSE m s)) = effects s
      \<or> (\<exists>d. resolveCallback (data m) = Inr d
            \<and> effects (snd (writeSSE m s)) = effects s @ [Wrote (sseData m d)]))
   \<and> closed (snd (writeSSE m s)) = closed s
   \<and> broken (snd (writeSSE m s)) = broken s"
proof -
  have "resolveCallback (data m) = Inr d \<longrightarrow> writeSSE m s = write_string (sseData m d) s"
    by (simp add: writeSSE_def)
  moreover have "resolveCallback (data m) = Inr d \<and> (closed s \<or> broken s) \<longrightarrow>
      writeSSE m s = (Inl WriteError, s)"
    by (auto simp: writeSSE_cases)
  moreover have "resolveCallback (data m) = Inr d \<and> \<not> closed s \<and> \<not> broken s \<longrightarrow>
      writeSSE m s = (Inr (), s\<lparr>effects := effects s @ [Wrote (sseData m d)]\<rparr>)"
    by (simp add: writeSSE_open)
  moreover have "(resolveCallback (data m) = Inl e \<longrightarrow> writeSSE m s = (Inl e, s))
   \<and> (effects (snd (writeSSE m s)) = effects s
      \<or> (\<exists>d. resolveCallback (data m) = Inr d
            \<and> effects (snd (writeSSE m s)) = effects s @ [Wrote (sseData m d)]))
   \<and> closed (snd (writeSSE m s)) = closed s
   \<and> broken (snd (writeSSE m s)) = broken s"
    by (simp add: writeSSE_cases split: sum.splits)
  ultimately show ?thesis by blast
qed

theorem writeSSE_atomic_witness:
  "writeSSE \<lparr>data = Deferred (Inl (Error ''rejected'')), event = Some ''update'', id' = None,
      retry = None\<rparr> new_stream = (Inl (Error ''rejected''), new_stream)
   \<and> writeSSE \<lparr>data = Deferred (Inr ''a\<newline>b''), event = Some ''update'', id' = None,
      retry = None\<rparr> new_stream
     = (Inr (), new_stream\<lparr>effects := [Wrote ''event: update\<newline>data: a\<newline>data: b\<newline>\<newline>'']\<rparr>)
   \<and> writeSSE \<lparr>data = Deferred (Inr ''a\<newline>b''), event = Some ''update'', id' = None,
      retry = None\<rparr> (abort new_stream) = (Inl WriteError, abort new_stream)"
proof -
  let ?rej = "\<lparr>data = Deferred (Inl (Error ''rejected'')), event = Some ''update'', id' = None,
      retry = None\<rparr>"
  let ?ok = "\<lparr>data = Deferred (Inr ''a\<newline>b''), event = Some ''update'', id' = None,
      retry = None\<rparr>"
  have frame: "sseData ?ok ''a\<newline>b'' = ''event: update\<newline>data: a\<newline>data: b\<newline>\<newline>''"
    by (simp add: sseData_formatMessage formatMessage_def event_line_def data_lines_def
        id_line_def retry_line_def)
  have a: "writeSSE ?rej new_stream = (Inl (Error ''rejected''), new_stream)"
    using writeSSE_atomic [of ?rej "Error ''rejected''" new_stream, THEN conjunct1] by simp
  have b: "writeSSE ?ok new_stream
      = (Inr (), new_stream\<lparr>effects := effects new_stream @ [Wrote (sseData ?ok ''a\<newline>b'')]\<rparr>)"
    using writeSSE_atomic [of ?ok _ new_stream "''a\<newline>b''", THEN conjunct2, THEN conjunct2,
        THEN conjunct1] by simp
  have c: "writeSSE ?ok (abort new_stream) = (Inl WriteError, abort new_stream)"
    using writeSSE_atomic [of ?ok _ "abort new_stream" "''a\<newline>b''", THEN conjunct2,
        THEN conjunct2, THEN conjunct2, THEN conjunct1] by simp
  from a b c show ?thesis by (simp add: frame)
qed



end
